theory Spec2Isabelle
  imports Complex_Main "HOL-Library.Multiset"
begin

section \<open>Data model of the investment pipeline page\<close>

text \<open>
  The page \<^verbatim>\<open>src/pages/InvestmentPipeline.tsx\<close> is a React component over a
  Firestore collection. Its hooks are modelled as one record of state, its handlers as
  functions from that state to the list of calls they make on the outside world and the
  state they leave. What an awaited call answers (it resolves, or it rejects with some
  cause of type \<open>'e\<close>) is an argument of the handler.

  Numbers are exact rationals. Strings are \<open>string\<close>; the literal unions of the
  source (\<^verbatim>\<open>'active' | 'paused' | 'closed'\<close>, the filter and the sort key)
  stay strings, compared with \<open>=\<close> where the source writes \<^verbatim>\<open>===\<close>.
\<close>

subsection \<open>Values read from a stored document\<close>

datatype js_value =
    JSUndefined
  | JSNull
  | JSBoolean bool
  | JSNumber rat
  | JSString string
  | JSObject

fun typeof :: "js_value \<Rightarrow> string" where
  "typeof JSUndefined = ''undefined''"
| "typeof JSNull = ''object''"
| "typeof (JSBoolean b) = ''boolean''"
| "typeof (JSNumber n) = ''number''"
| "typeof (JSString s) = ''string''"
| "typeof JSObject = ''object''"

subsection \<open>Records\<close>

record Comment =
  comment_id :: string
  comment_text :: string
  comment_date :: string

text \<open>
  \<^verbatim>\<open>Omit<Investor, 'id'>\<close>, with the fields of the initial
  \<^verbatim>\<open>newInvestor\<close>. The type of \<^verbatim>\<open>currentStep\<close> is a parameter: a
  stored document holds any value there, an \<^verbatim>\<open>Investor\<close> of the page a number.
  \<^verbatim>\<open>investmentAmount\<close> may be undefined (the source reads it with
  \<^verbatim>\<open>?.\<close> and \<^verbatim>\<open>|| 0\<close>).
\<close>

record 'step InvestorData =
  name :: string
  company :: string
  email :: string
  phone :: string
  website :: string
  currentStep :: 'step
  status :: string
  investmentAmount :: "rat option"
  lastContact :: string
  notes_text :: string
  comments :: "Comment list"
  industry :: string
  fundSize :: rat
  investmentStage :: string
  location :: string
  importance :: string

record 'step Investor = "'step InvestorData" +
  investor_id :: string

record User =
  uid :: string
  user_email :: "string option"
  displayName :: "string option"

record QueryDocumentSnapshot =
  doc_id :: string
  doc_data :: "js_value InvestorData"

subsection \<open>The component's state\<close>

record PipelineState =
  user :: "User option"
  investors :: "rat Investor list"
  newInvestor :: "rat InvestorData"
  isLoading :: bool
  error :: "string option"
  editingInvestor :: "rat Investor option"
  deleteConfirmation :: "string option"
  filterStatus :: string
  sortBy :: string
  expandedCards :: "string \<rightharpoonup> bool"
  showConfetti :: bool
  portfolioAnalysis :: "string list"
  investmentLikelihood :: "rat option"
  suggestedActions :: "string list"

subsection \<open>Calls on the outside world\<close>

datatype update_data =
    CurrentStepField rat
  | StatusField string
  | WholeData "rat InvestorData"
  | CommentsArrayUnion Comment
  | CommentsField "Comment list"

datatype callback = SetShowConfetti bool

text \<open>
  A document reference \<^verbatim>\<open>doc(db, 'users', uid, 'investors', investorId)\<close> is the
  pair of the two strings that vary.
\<close>

datatype 'e call =
    AddDoc string "rat InvestorData"
  | UpdateDoc string string update_data
  | DeleteDoc string string
  | GetDoc string string
  | ConsoleError string 'e
  | SetTimeout callback nat
  | AnalyzeInvestorPortfolio "rat Investor"
  | PredictInvestmentLikelihood "rat Investor"
  | SuggestNextActions "rat Investor" rat

definition steps :: "string list" where
  "steps =
     [''Initial Contact'', ''Pitch Deck Review'', ''First Meeting'', ''Due Diligence'',
      ''Term Sheet'', ''Negotiation'', ''Closing'']"

definition emptyInvestor :: "rat InvestorData" where
  "emptyInvestor =
     \<lparr>name = '''', company = '''', email = '''', phone = '''', website = '''',
      currentStep = 0, status = ''active'', investmentAmount = Some 0,
      lastContact = '''', notes_text = '''', comments = [], industry = '''', fundSize = 0,
      investmentStage = '''', location = '''', importance = ''medium''\<rparr>"

section \<open>Expanding and collapsing a card\<close>

text \<open>
  \<^verbatim>\<open>!prev[investorId]\<close>: an absent key reads as undefined, which negates to true.
  The card reads its flag as \<^verbatim>\<open>expandedCards[investor.id] || false\<close>. The keys
  are document ids; names that every object inherits from its prototype are not
  modelled.
\<close>

definition truthy :: "bool option \<Rightarrow> bool" where
  "truthy v = (case v of None \<Rightarrow> False | Some b \<Rightarrow> b)"

definition toggleCardExpansion :: "string \<Rightarrow> PipelineState \<Rightarrow> PipelineState" where
  "toggleCardExpansion investorId s =
     s\<lparr>expandedCards := (expandedCards s)(investorId \<mapsto> \<not> truthy (expandedCards s investorId))\<rparr>"

definition expanded :: "PipelineState \<Rightarrow> string \<Rightarrow> bool" where
  "expanded s investorId = truthy (expandedCards s investorId)"

section \<open>Filtering and sorting the list\<close>

definition filteredInvestors :: "PipelineState \<Rightarrow> rat Investor list" where
  "filteredInvestors s =
     filter (\<lambda>investor. if filterStatus s = ''all'' then True
                          else status investor = filterStatus s)
       (investors s)"

text \<open>
  \<^verbatim>\<open>Array.prototype.sort\<close> with a comparator is a stable sort: an element goes
  before the first element it does not compare greater than.
\<close>

fun insert_by :: "('a \<Rightarrow> 'a \<Rightarrow> rat) \<Rightarrow> 'a \<Rightarrow> 'a list \<Rightarrow> 'a list" where
  "insert_by cmp x [] = [x]"
| "insert_by cmp x (y # ys) =
     (if cmp x y \<le> 0 then x # y # ys else y # insert_by cmp x ys)"

definition array_sort :: "('a \<Rightarrow> 'a \<Rightarrow> rat) \<Rightarrow> 'a list \<Rightarrow> 'a list" where
  "array_sort cmp xs = foldr (insert_by cmp) xs []"

text \<open>\<^verbatim>\<open>x || 0\<close> on a number that may be undefined: zero is falsy as well.\<close>

definition or_zero :: "rat option \<Rightarrow> rat" where
  "or_zero v = (case v of None \<Rightarrow> 0 | Some x \<Rightarrow> if x = 0 then 0 else x)"

text \<open>
  The comparator of \<^verbatim>\<open>sortedInvestors\<close>. \<^verbatim>\<open>String.prototype.localeCompare\<close>
  depends on the locale of the browser and is an argument.
\<close>

definition compareInvestors ::
  "(string \<Rightarrow> string \<Rightarrow> rat) \<Rightarrow> string \<Rightarrow> rat Investor \<Rightarrow> rat Investor \<Rightarrow> rat" where
  "compareInvestors localeCompare key a b =
     (if key = ''name'' then localeCompare (name a) (name b)
      else if key = ''company'' then localeCompare (company a) (company b)
      else if key = ''investmentAmount''
        then or_zero (investmentAmount b) - or_zero (investmentAmount a)
      else 0)"

definition sortedInvestors ::
  "(string \<Rightarrow> string \<Rightarrow> rat) \<Rightarrow> PipelineState \<Rightarrow> rat Investor list" where
  "sortedInvestors localeCompare s =
     array_sort (compareInvestors localeCompare (sortBy s)) (filteredInvestors s)"

section \<open>The subscription handler\<close>

text \<open>
  \<^verbatim>\<open>{ id: doc.id, ...data, currentStep: typeof data.currentStep === 'number' ?
  data.currentStep : 0 }\<close>, pushed for each document of the snapshot; the list
  replaces the local one.
\<close>

definition investorOfDoc :: "QueryDocumentSnapshot \<Rightarrow> rat Investor" where
  "investorOfDoc d =
     (let data = doc_data d in
      \<lparr>name = name data, company = company data, email = email data,
       phone = phone data, website = website data,
       currentStep =
         (if typeof (currentStep data) = ''number''
          then (case currentStep data of JSNumber n \<Rightarrow> n | _ \<Rightarrow> 0)
          else 0),
       status = status data, investmentAmount = investmentAmount data,
       lastContact = lastContact data, notes_text = notes_text data,
       comments = comments data, industry = industry data, fundSize = fundSize data,
       investmentStage = investmentStage data, location = location data,
       importance = importance data, investor_id = doc_id d\<rparr>)"

definition onSnapshot_handler ::
  "QueryDocumentSnapshot list \<Rightarrow> PipelineState \<Rightarrow> PipelineState" where
  "onSnapshot_handler querySnapshot s = s\<lparr>investors := map investorOfDoc querySnapshot\<rparr>"

section \<open>The handlers of the page\<close>

text \<open>
  Each handler does nothing without a signed-in user. The argument \<open>outcome\<close> is
  what the awaited write answers: \<open>None\<close> when it resolves, \<open>Some e\<close> when it
  rejects with \<open>e\<close>, which the \<^verbatim>\<open>catch\<close> logs before it sets the error text.
\<close>

definition handleAddInvestor ::
  "'e option \<Rightarrow> PipelineState \<Rightarrow> 'e call list \<times> PipelineState" where
  "handleAddInvestor outcome s =
     (case user s of
        None \<Rightarrow> ([], s)
      | Some u \<Rightarrow>
          (case outcome of
             None \<Rightarrow>
               ([AddDoc (uid u) (newInvestor s)],
                s\<lparr>newInvestor := emptyInvestor, isLoading := False\<rparr>)
           | Some e \<Rightarrow>
               ([AddDoc (uid u) (newInvestor s), ConsoleError ''Error adding investor:'' e],
                s\<lparr>error := Some ''Failed to add investor. Please try again.'',
                  isLoading := False\<rparr>)))"

definition handleUpdateInvestorStep ::
  "string \<Rightarrow> rat \<Rightarrow> 'e option \<Rightarrow> PipelineState \<Rightarrow> 'e call list \<times> PipelineState" where
  "handleUpdateInvestorStep investorId newStep outcome s =
     (case user s of
        None \<Rightarrow> ([], s)
      | Some u \<Rightarrow>
          (case outcome of
             None \<Rightarrow>
               (if newStep = of_nat (length steps) - 1
                then ([UpdateDoc (uid u) investorId (CurrentStepField newStep),
                       SetTimeout (SetShowConfetti False) 5000],
                      s\<lparr>showConfetti := True\<rparr>)
                else ([UpdateDoc (uid u) investorId (CurrentStepField newStep)], s))
           | Some e \<Rightarrow>
               ([UpdateDoc (uid u) investorId (CurrentStepField newStep),
                 ConsoleError ''Error updating investor step:'' e],
                s\<lparr>error := Some ''Failed to update investor step. Please try again.''\<rparr>)))"

fun run_callback :: "callback \<Rightarrow> PipelineState \<Rightarrow> PipelineState" where
  "run_callback (SetShowConfetti b) s = s\<lparr>showConfetti := b\<rparr>"

definition handleUpdateInvestorStatus ::
  "string \<Rightarrow> string \<Rightarrow> 'e option \<Rightarrow> PipelineState \<Rightarrow> 'e call list \<times> PipelineState" where
  "handleUpdateInvestorStatus investorId newStatus outcome s =
     (case user s of
        None \<Rightarrow> ([], s)
      | Some u \<Rightarrow>
          (case outcome of
             None \<Rightarrow> ([UpdateDoc (uid u) investorId (StatusField newStatus)], s)
           | Some e \<Rightarrow>
               ([UpdateDoc (uid u) investorId (StatusField newStatus),
                 ConsoleError ''Error updating investor status:'' e],
                s\<lparr>error := Some ''Failed to update investor status. Please try again.''\<rparr>)))"

definition handleDeleteInvestor ::
  "string \<Rightarrow> 'e option \<Rightarrow> PipelineState \<Rightarrow> 'e call list \<times> PipelineState" where
  "handleDeleteInvestor investorId outcome s =
     (case user s of
        None \<Rightarrow> ([], s)
      | Some u \<Rightarrow>
          (case outcome of
             None \<Rightarrow>
               ([DeleteDoc (uid u) investorId],
                s\<lparr>investors :=
                    filter (\<lambda>investor. investor_id investor \<noteq> investorId) (investors s)\<rparr>)
           | Some e \<Rightarrow>
               ([DeleteDoc (uid u) investorId, ConsoleError ''Error deleting investor:'' e],
                s\<lparr>error := Some ''Failed to delete investor. Please try again.''\<rparr>)))"

text \<open>
  \<^verbatim>\<open>handleEditInvestor\<close> awaits four calls in turn: the update and the three
  analyses. Each of the analyses answers \<open>Inr\<close> its value or \<open>Inl\<close> a rejection; the one
  \<^verbatim>\<open>catch\<close> takes the first rejection, and the later calls are not made. The
  second argument of \<^verbatim>\<open>predictInvestmentLikelihood\<close> is the constant empty object
  and is left out of the call.
\<close>

definition handleEditInvestor ::
  "rat Investor \<Rightarrow> 'e option \<Rightarrow> 'e + string list \<Rightarrow> 'e + rat \<Rightarrow> 'e + string list \<Rightarrow>
   PipelineState \<Rightarrow> 'e call list \<times> PipelineState" where
  "handleEditInvestor updatedInvestor outcome portfolio likelihood actions s =
     (case user s of
        None \<Rightarrow> ([], s)
      | Some u \<Rightarrow>
          (let updateData = InvestorData.truncate updatedInvestor;
               write = UpdateDoc (uid u) (investor_id updatedInvestor) (WholeData updateData);
               caught = (\<lambda>e. ConsoleError ''Error updating investor:'' e);
               failed = (\<lambda>t. t\<lparr>error := Some ''Failed to update investor. Please try again.''\<rparr>)
           in case outcome of
                Some e \<Rightarrow> ([write, caught e], failed s)
              | None \<Rightarrow>
                  (let s1 = s\<lparr>investors :=
                                 map (\<lambda>investor.
                                        if investor_id investor = investor_id updatedInvestor
                                        then updatedInvestor else investor)
                                   (investors s),
                               editingInvestor := None\<rparr>;
                       c1 = AnalyzeInvestorPortfolio updatedInvestor;
                       c2 = PredictInvestmentLikelihood updatedInvestor;
                       c3 = SuggestNextActions updatedInvestor (currentStep updatedInvestor)
                   in case portfolio of
                        Inl e \<Rightarrow> ([write, c1, caught e], failed s1)
                      | Inr p \<Rightarrow>
                          (let s2 = s1\<lparr>portfolioAnalysis := p\<rparr>
                           in case likelihood of
                                Inl e \<Rightarrow> ([write, c1, c2, caught e], failed s2)
                              | Inr l \<Rightarrow>
                                  (let s3 = s2\<lparr>investmentLikelihood := Some l\<rparr>
                                   in case actions of
                                        Inl e \<Rightarrow> ([write, c1, c2, c3, caught e], failed s3)
                                      | Inr a \<Rightarrow>
                                          ([write, c1, c2, c3],
                                           s3\<lparr>suggestedActions := a\<rparr>))))))"

text \<open>
  The clock is an argument: \<open>dateNow\<close> is \<^verbatim>\<open>Date.now().toString()\<close> and
  \<open>isoNow\<close> is \<^verbatim>\<open>new Date().toISOString()\<close>.
\<close>

definition handleAddComment ::
  "string \<Rightarrow> string \<Rightarrow> string \<Rightarrow> string \<Rightarrow> 'e option \<Rightarrow> PipelineState \<Rightarrow>
   'e call list \<times> PipelineState" where
  "handleAddComment investorId commentText dateNow isoNow outcome s =
     (case user s of
        None \<Rightarrow> ([], s)
      | Some u \<Rightarrow>
          (let newComment =
                 \<lparr>comment_id = dateNow, comment_text = commentText, comment_date = isoNow\<rparr>;
               write = UpdateDoc (uid u) investorId (CommentsArrayUnion newComment)
           in case outcome of
                None \<Rightarrow> ([write], s)
              | Some e \<Rightarrow>
                  ([write, ConsoleError ''Error adding comment:'' e],
                   s\<lparr>error := Some ''Failed to add comment. Please try again.''\<rparr>)))"

text \<open>
  The two handlers below read the document first. \<open>got\<close> is what
  \<^verbatim>\<open>getDoc\<close> answers: \<open>Inl\<close> a rejection, or \<open>Inr\<close> the value of
  \<^verbatim>\<open>investorDoc.data()?.comments\<close>, \<open>None\<close> when that is undefined.
\<close>

definition handleUpdateComment ::
  "string \<Rightarrow> string \<Rightarrow> string \<Rightarrow> 'e + Comment list option \<Rightarrow> 'e option \<Rightarrow>
   PipelineState \<Rightarrow> 'e call list \<times> PipelineState" where
  "handleUpdateComment investorId commentId newText got outcome s =
     (case user s of
        None \<Rightarrow> ([], s)
      | Some u \<Rightarrow>
          (let caught = (\<lambda>e. ConsoleError ''Error updating comment:'' e);
               failed = s\<lparr>error := Some ''Failed to update comment. Please try again.''\<rparr>
           in case got of
                Inl e \<Rightarrow> ([GetDoc (uid u) investorId, caught e], failed)
              | Inr v \<Rightarrow>
                  (let currentComments = (case v of None \<Rightarrow> [] | Some cs \<Rightarrow> cs);
                       updatedComments =
                         map (\<lambda>comment.
                                if comment_id comment = commentId
                                then comment\<lparr>comment_text := newText\<rparr> else comment)
                           currentComments;
                       write = UpdateDoc (uid u) investorId (CommentsField updatedComments)
                   in case outcome of
                        None \<Rightarrow> ([GetDoc (uid u) investorId, write], s)
                      | Some e \<Rightarrow>
                          ([GetDoc (uid u) investorId, write, caught e], failed))))"

definition handleDeleteComment ::
  "string \<Rightarrow> string \<Rightarrow> 'e + Comment list option \<Rightarrow> 'e option \<Rightarrow>
   PipelineState \<Rightarrow> 'e call list \<times> PipelineState" where
  "handleDeleteComment investorId commentId got outcome s =
     (case user s of
        None \<Rightarrow> ([], s)
      | Some u \<Rightarrow>
          (let caught = (\<lambda>e. ConsoleError ''Error deleting comment:'' e);
               failed = s\<lparr>error := Some ''Failed to delete comment. Please try again.''\<rparr>
           in case got of
                Inl e \<Rightarrow> ([GetDoc (uid u) investorId, caught e], failed)
              | Inr v \<Rightarrow>
                  (let currentComments = (case v of None \<Rightarrow> [] | Some cs \<Rightarrow> cs);
                       updatedComments =
                         filter (\<lambda>comment. comment_id comment \<noteq> commentId) currentComments;
                       write = UpdateDoc (uid u) investorId (CommentsField updatedComments)
                   in case outcome of
                        None \<Rightarrow> ([GetDoc (uid u) investorId, write], s)
                      | Some e \<Rightarrow>
                          ([GetDoc (uid u) investorId, write, caught e], failed))))"

section \<open>The controls of an investor card\<close>

record CardState =
  newComment :: string
  editingCommentId :: "string option"
  editingCommentText :: string

text \<open>
  \<^verbatim>\<open>String.prototype.trim\<close> removes the white space and line terminators at both
  ends. Which characters those are is the argument \<open>ws\<close>.
\<close>

definition trim :: "(char \<Rightarrow> bool) \<Rightarrow> string \<Rightarrow> string" where
  "trim ws str = rev (dropWhile ws (rev (dropWhile ws str)))"

text \<open>
  \<^verbatim>\<open>handleAddComment\<close> reaches the card as a prop; \<open>handleCommentSubmit\<close>
  returns the call of the prop it makes, if it makes one. A non-empty string is truthy.
\<close>

definition handleCommentSubmit ::
  "(char \<Rightarrow> bool) \<Rightarrow> (string \<Rightarrow> string \<Rightarrow> 'r) \<Rightarrow> rat Investor \<Rightarrow> CardState \<Rightarrow>
   'r option \<times> CardState" where
  "handleCommentSubmit ws handleAddComment_prop investor c =
     (if trim ws (newComment c) \<noteq> []
      then (Some (handleAddComment_prop (investor_id investor) (trim ws (newComment c))),
            c\<lparr>newComment := []\<rparr>)
      else (None, c))"

text \<open>The card as the page renders it, with the page's \<open>handleAddComment\<close> as the prop.\<close>

definition submitComment ::
  "(char \<Rightarrow> bool) \<Rightarrow> rat Investor \<Rightarrow> string \<Rightarrow> string \<Rightarrow> 'e option \<Rightarrow>
   PipelineState \<times> CardState \<Rightarrow> 'e call list \<times> PipelineState \<times> CardState" where
  "submitComment ws investor dateNow isoNow outcome sc =
     (case handleCommentSubmit ws
             (\<lambda>investorId commentText.
                handleAddComment investorId commentText dateNow isoNow outcome (fst sc))
             investor (snd sc) of
        (None, c') \<Rightarrow> ([], fst sc, c')
      | (Some (calls, s'), c') \<Rightarrow> (calls, s', c'))"

text \<open>
  The stage buttons. A disabled button does not run its \<^verbatim>\<open>onClick\<close>.
\<close>

definition previous_disabled :: "rat Investor \<Rightarrow> bool" where
  "previous_disabled investor = (currentStep investor = 0)"

definition next_disabled :: "rat Investor \<Rightarrow> bool" where
  "next_disabled investor = (currentStep investor = of_nat (length steps) - 1)"

definition previous_onClick ::
  "rat Investor \<Rightarrow> 'e option \<Rightarrow> PipelineState \<Rightarrow> 'e call list \<times> PipelineState" where
  "previous_onClick investor outcome s =
     (if currentStep investor > 0
      then handleUpdateInvestorStep (investor_id investor) (currentStep investor - 1) outcome s
      else ([], s))"

definition next_onClick ::
  "rat Investor \<Rightarrow> 'e option \<Rightarrow> PipelineState \<Rightarrow> 'e call list \<times> PipelineState" where
  "next_onClick investor outcome s =
     (if currentStep investor < of_nat (length steps) - 1
      then handleUpdateInvestorStep (investor_id investor) (currentStep investor + 1) outcome s
      else ([], s))"

definition click ::
  "bool \<Rightarrow> (PipelineState \<Rightarrow> 'e call list \<times> PipelineState) \<Rightarrow> PipelineState \<Rightarrow>
   'e call list \<times> PipelineState" where
  "click disabled onClick s = (if disabled then ([], s) else onClick s)"

definition status_onClick ::
  "rat Investor \<Rightarrow> 'e option \<Rightarrow> PipelineState \<Rightarrow> 'e call list \<times> PipelineState" where
  "status_onClick investor outcome s =
     handleUpdateInvestorStatus (investor_id investor)
       (if status investor = ''active'' then ''paused'' else ''active'') outcome s"

section \<open>Initial state and observations\<close>

text \<open>The initial values of the \<^verbatim>\<open>useState\<close> hooks; the user comes from the auth hook.\<close>

definition initialState :: "User option \<Rightarrow> PipelineState" where
  "initialState u =
     \<lparr>user = u, investors = [], newInvestor = emptyInvestor, isLoading = False,
      error = None, editingInvestor = None, deleteConfirmation = None,
      filterStatus = ''all'', sortBy = ''name'', expandedCards = Map.empty,
      showConfetti = False, portfolioAnalysis = [], investmentLikelihood = None,
      suggestedActions = []\<rparr>"

text \<open>
  What a list of calls writes to \<^verbatim>\<open>currentStep\<close>: the document and the value of
  each such update, in order.
\<close>

fun written_steps :: "'e call list \<Rightarrow> (string \<times> rat) list" where
  "written_steps [] = []"
| "written_steps (UpdateDoc u i (CurrentStepField n) # cs) = (i, n) # written_steps cs"
| "written_steps (c # cs) = written_steps cs"

fun is_write :: "'e call \<Rightarrow> bool" where
  "is_write (AddDoc u d) = True"
| "is_write (UpdateDoc u i d) = True"
| "is_write (DeleteDoc u i) = True"
| "is_write c = False"

fun is_analysis :: "'e call \<Rightarrow> bool" where
  "is_analysis (AnalyzeInvestorPortfolio i) = True"
| "is_analysis (PredictInvestmentLikelihood i) = True"
| "is_analysis (SuggestNextActions i n) = True"
| "is_analysis c = False"

text \<open>
  The invariant of the data model: \<^verbatim>\<open>currentStep\<close> is an integer index into the
  seven stages.
\<close>

definition step_in_range :: "rat \<Rightarrow> bool" where
  "step_in_range c = (c \<in> \<int> \<and> 0 \<le> c \<and> c \<le> 6)"

text \<open>
  Sample values for the concrete instances below: a signed-in page, and an investor with
  a given id, step, status and amount whose other fields are those of the empty form.
\<close>

definition signedIn :: PipelineState where
  "signedIn = initialState (Some \<lparr>uid = ''u1'', user_email = None, displayName = None\<rparr>)"

definition investorAt :: "string \<Rightarrow> rat \<Rightarrow> string \<Rightarrow> rat option \<Rightarrow> rat Investor" where
  "investorAt i step st amount =
     InvestorData.extend
       (emptyInvestor\<lparr>currentStep := step, status := st, investmentAmount := amount\<rparr>)
       (Investor.fields i)"

definition docAt :: "string \<Rightarrow> js_value \<Rightarrow> QueryDocumentSnapshot" where
  "docAt i v =
     \<lparr>doc_id = i,
      doc_data =
        \<lparr>name = '''', company = '''', email = '''', phone = '''', website = '''',
         currentStep = v, status = ''active'', investmentAmount = Some 0,
         lastContact = '''', notes_text = '''', comments = [], industry = '''',
         fundSize = 0, investmentStage = '''', location = '''',
         importance = ''medium''\<rparr>\<rparr>"

section \<open>Auxiliary facts\<close>

lemma truthy_simps: "truthy None = False" "truthy (Some b) = b"
  by (simp_all add: truthy_def)

lemma typeof_number_iff: "typeof v = ''number'' \<longleftrightarrow> (\<exists>n. v = JSNumber n)"
  by (cases v) simp_all

lemma steps_last_index: "of_nat (length steps) - 1 = (6::rat)"
  by (simp add: steps_def)

lemma investorAt_simps:
  "currentStep (investorAt i step st amount) = step"
  "status (investorAt i step st amount) = st"
  "investmentAmount (investorAt i step st amount) = amount"
  "investor_id (investorAt i step st amount) = i"
  by (simp_all add: investorAt_def InvestorData.defs Investor.defs)

lemma signedIn_simps:
  "user signedIn = Some \<lparr>uid = ''u1'', user_email = None, displayName = None\<rparr>"
  "showConfetti signedIn = False"
  "error signedIn = None"
  "investors signedIn = []"
  by (simp_all add: signedIn_def initialState_def)

subsection \<open>The sort\<close>

lemma set_insert_by: "set (insert_by cmp x xs) = insert x (set xs)"
  by (induction xs) auto

lemma mset_insert_by: "mset (insert_by cmp x xs) = add_mset x (mset xs)"
  by (induction xs) auto

lemma mset_array_sort: "mset (array_sort cmp xs) = mset xs"
  by (induction xs) (simp_all add: array_sort_def mset_insert_by)

lemma sorted_insert_by:
  assumes cmp: "\<And>a b. cmp a b \<le> 0 \<longleftrightarrow> key b \<le> key a"
    and srt: "sorted_wrt (\<lambda>a b. key b \<le> key a) xs"
  shows "sorted_wrt (\<lambda>a b. key b \<le> (key a :: rat)) (insert_by cmp x xs)"
  using srt
proof (induction xs)
  case Nil
  show ?case by simp
next
  case (Cons y ys)
  show ?case
  proof (cases "cmp x y \<le> 0")
    case True
    then have "key y \<le> key x" by (simp add: cmp)
    with Cons.prems True show ?thesis by fastforce
  next
    case False
    then have "key x \<le> key y" using cmp [of x y] by linarith
    with Cons False show ?thesis by (auto simp add: set_insert_by)
  qed
qed

lemma sorted_array_sort:
  assumes cmp: "\<And>a b. cmp a b \<le> 0 \<longleftrightarrow> key b \<le> key a"
  shows "sorted_wrt (\<lambda>a b. key b \<le> (key a :: rat)) (array_sort cmp xs)"
proof (induction xs)
  case Nil
  show ?case by (simp add: array_sort_def)
next
  case (Cons x xs)
  have "array_sort cmp (x # xs) = insert_by cmp x (array_sort cmp xs)"
    by (simp add: array_sort_def)
  with Cons show ?case by (simp add: sorted_insert_by [of cmp key, OF cmp])
qed

subsection \<open>The stage buttons\<close>

lemma written_steps_handleUpdateInvestorStep:
  "written_steps (fst (handleUpdateInvestorStep investorId newStep outcome s)) =
     (case user s of None \<Rightarrow> [] | Some u \<Rightarrow> [(investorId, newStep)])"
  by (simp add: handleUpdateInvestorStep_def split: option.splits)

lemma step_in_range_pred: "step_in_range c \<Longrightarrow> 0 < c \<Longrightarrow> step_in_range (c - 1)"
  unfolding step_in_range_def
  by (auto elim!: Ints_cases)

lemma step_in_range_succ: "step_in_range c \<Longrightarrow> c < 6 \<Longrightarrow> step_in_range (c + 1)"
  unfolding step_in_range_def
  by (auto elim!: Ints_cases)

subsection \<open>Records and trimming\<close>

lemma truncate_extend:
  "InvestorData.extend (InvestorData.truncate i) (Investor.fields (investor_id i))
     = (i :: rat Investor)"
  by (cases i) (simp add: InvestorData.defs Investor.defs)

lemma trim_empty_iff: "trim ws str = [] \<longleftrightarrow> (\<forall>ch \<in> set str. ws ch)"
proof
  assume "\<forall>ch \<in> set str. ws ch"
  then show "trim ws str = []"
    by (auto simp add: trim_def dest: set_dropWhileD)
next
  assume "trim ws str = []"
  then have "dropWhile ws (rev (dropWhile ws str)) = []"
    by (simp add: trim_def)
  then have all: "\<forall>ch \<in> set (dropWhile ws str). ws ch"
    by (simp only: dropWhile_eq_Nil_conv set_rev)
  show "\<forall>ch \<in> set str. ws ch"
  proof (rule ccontr)
    assume "\<not> (\<forall>ch \<in> set str. ws ch)"
    then have ne: "dropWhile ws str \<noteq> []" by simp
    then have "\<not> ws (hd (dropWhile ws str))" by (rule hd_dropWhile)
    moreover from ne have "hd (dropWhile ws str) \<in> set (dropWhile ws str)" by simp
    ultimately show False using all by blast
  qed
qed

lemma dropWhile_end_split:
  "xs = rev (dropWhile P (rev xs)) @ rev (takeWhile P (rev xs))"
proof -
  have "rev (rev xs) = rev (takeWhile P (rev xs) @ dropWhile P (rev xs))"
    by (simp only: takeWhile_dropWhile_id)
  then show ?thesis by (simp only: rev_rev_ident rev_append)
qed

text \<open>
  What \<open>trim\<close> returns is the input without a run of white space at each end, and it
  neither starts nor ends with white space.
\<close>

lemma trim_decomposition:
  "\<exists>pre suf. str = pre @ trim ws str @ suf \<and> (\<forall>ch \<in> set pre. ws ch) \<and> (\<forall>ch \<in> set suf. ws ch)"
proof -
  let ?d = "dropWhile ws str"
  have a: "str = takeWhile ws str @ ?d" by simp
  have c: "?d = trim ws str @ rev (takeWhile ws (rev ?d))"
    unfolding trim_def by (rule dropWhile_end_split)
  have "str = takeWhile ws str @ trim ws str @ rev (takeWhile ws (rev ?d))"
    using a c by metis
  moreover have "\<forall>ch \<in> set (takeWhile ws str). ws ch"
    by (auto dest: set_takeWhileD)
  moreover have "\<forall>ch \<in> set (rev (takeWhile ws (rev ?d))). ws ch"
    by (auto dest: set_takeWhileD)
  ultimately show ?thesis by blast
qed

lemma trim_ends:
  "trim ws str \<noteq> [] \<Longrightarrow> \<not> ws (hd (trim ws str)) \<and> \<not> ws (last (trim ws str))"
proof -
  assume ne: "trim ws str \<noteq> []"
  let ?d = "dropWhile ws str"
  let ?r = "dropWhile ws (rev ?d)"
  from ne have r: "?r \<noteq> []" by (simp add: trim_def)
  then have l: "\<not> ws (hd ?r)" by (rule hd_dropWhile)
  from r have "last (trim ws str) = hd ?r" by (simp add: trim_def last_rev)
  with l have last: "\<not> ws (last (trim ws str))" by simp
  have dne: "?d \<noteq> []"
  proof
    assume "?d = []"
    then have "?r = []" by (simp only: rev.simps dropWhile.simps)
    with r show False by simp
  qed
  then have h: "\<not> ws (hd ?d)" by (rule hd_dropWhile)
  have "?d = trim ws str @ rev (takeWhile ws (rev ?d))"
    unfolding trim_def by (rule dropWhile_end_split)
  with ne have "hd ?d = hd (trim ws str)" by (metis hd_append2)
  with h have "\<not> ws (hd (trim ws str))" by simp
  with last show ?thesis by simp
qed

section \<open>Properties of the page\<close>

subsection \<open>Expansion of a card\<close>

text \<open>
  C8. For every record id and every expansion-state map, toggling expand for that id
  flips the expanded flag of that id, and both the map entry and the expanded flag of
  every other id are unchanged.
\<close>

theorem toggleCardExpansion_flips_only_that_id:
  "expanded (toggleCardExpansion investorId s) investorId = (\<not> expanded s investorId) \<and>
   (\<forall>other. other \<noteq> investorId \<longrightarrow>
      expandedCards (toggleCardExpansion investorId s) other = expandedCards s other \<and>
      expanded (toggleCardExpansion investorId s) other = expanded s other)"
  by (simp add: toggleCardExpansion_def expanded_def truthy_simps)

text \<open>
  An instance: with cards a and b expanded, toggling a collapses a and leaves b
  expanded; toggling a card that has no entry yet expands it.
\<close>

theorem toggleCardExpansion_witness:
  "expanded (toggleCardExpansion ''a''
      ((initialState None)\<lparr>expandedCards := [''a'' \<mapsto> True, ''b'' \<mapsto> True]\<rparr>)) ''a'' = False \<and>
   expanded (toggleCardExpansion ''a''
      ((initialState None)\<lparr>expandedCards := [''a'' \<mapsto> True, ''b'' \<mapsto> True]\<rparr>)) ''b'' = True \<and>
   expanded (toggleCardExpansion ''c'' (initialState None)) ''c'' = True"
  using toggleCardExpansion_flips_only_that_id [of "''a''"
      "(initialState None)\<lparr>expandedCards := [''a'' \<mapsto> True, ''b'' \<mapsto> True]\<rparr>"]
    toggleCardExpansion_flips_only_that_id [of "''c''" "initialState None"]
  by (simp add: expanded_def truthy_simps initialState_def)

subsection \<open>Filter and sort\<close>

text \<open>
  C4. For every investor list and every filter selection: the filter \<^verbatim>\<open>'all'\<close>
  returns the list unchanged, and any other selection (so \<^verbatim>\<open>'paused'\<close>,
  \<^verbatim>\<open>'active'\<close> and \<^verbatim>\<open>'closed'\<close>) returns exactly the records whose status equals
  the selection, in their order.
\<close>

theorem filteredInvestors_by_status:
  "(filterStatus s = ''all'' \<longrightarrow> filteredInvestors s = investors s) \<and>
   (filterStatus s \<noteq> ''all'' \<longrightarrow>
      filteredInvestors s = filter (\<lambda>investor. status investor = filterStatus s) (investors s))"
  by (simp add: filteredInvestors_def)

text \<open>An instance: of a paused and an active investor, \<^verbatim>\<open>'paused'\<close> keeps the first.\<close>

theorem filteredInvestors_witness:
  "filteredInvestors (signedIn
      \<lparr>investors := [investorAt ''i1'' 0 ''paused'' None, investorAt ''i2'' 0 ''active'' None],
       filterStatus := ''paused''\<rparr>)
     = [investorAt ''i1'' 0 ''paused'' None] \<and>
   filteredInvestors (signedIn
      \<lparr>investors := [investorAt ''i1'' 0 ''paused'' None, investorAt ''i2'' 0 ''active'' None],
       filterStatus := ''all''\<rparr>)
     = [investorAt ''i1'' 0 ''paused'' None, investorAt ''i2'' 0 ''active'' None]"
  using filteredInvestors_by_status [of "signedIn
      \<lparr>investors := [investorAt ''i1'' 0 ''paused'' None, investorAt ''i2'' 0 ''active'' None],
       filterStatus := ''paused''\<rparr>"]
    filteredInvestors_by_status [of "signedIn
      \<lparr>investors := [investorAt ''i1'' 0 ''paused'' None, investorAt ''i2'' 0 ''active'' None],
       filterStatus := ''all''\<rparr>"]
  by (simp add: investorAt_simps)

text \<open>
  C3. For every investor list, sorting by \<^verbatim>\<open>investmentAmount\<close> gives the filtered
  records (the same records, as a multiset) in descending order of amount, where the
  amount of a record is read through \<^verbatim>\<open>|| 0\<close>: an undefined amount counts as zero.
\<close>

theorem sortedInvestors_by_amount_descending:
  "sortBy s = ''investmentAmount'' \<Longrightarrow>
   sorted_wrt (\<lambda>a b. or_zero (investmentAmount b) \<le> or_zero (investmentAmount a))
     (sortedInvestors localeCompare s) \<and>
   mset (sortedInvestors localeCompare s) = mset (filteredInvestors s) \<and>
   or_zero None = 0"
proof -
  assume key: "sortBy s = ''investmentAmount''"
  have cmp: "\<And>a b. compareInvestors localeCompare (sortBy s) a b \<le> 0
      \<longleftrightarrow> or_zero (investmentAmount b) \<le> or_zero (investmentAmount a)"
    by (simp add: compareInvestors_def key)
  show ?thesis
    unfolding sortedInvestors_def
    using sorted_array_sort [of "compareInvestors localeCompare (sortBy s)"
        "\<lambda>i. or_zero (investmentAmount i)", OF cmp]
    by (simp add: mset_array_sort or_zero_def)
qed

text \<open>An instance: amounts 5, undefined and 7 come out as 7, 5, undefined.\<close>

theorem sortedInvestors_witness:
  "sortBy (signedIn
      \<lparr>investors := [investorAt ''i1'' 0 ''active'' (Some 5),
                     investorAt ''i2'' 0 ''active'' None,
                     investorAt ''i3'' 0 ''active'' (Some 7)],
       sortBy := ''investmentAmount''\<rparr>) = ''investmentAmount'' \<and>
   sortedInvestors (\<lambda>a b. 0) (signedIn
      \<lparr>investors := [investorAt ''i1'' 0 ''active'' (Some 5),
                     investorAt ''i2'' 0 ''active'' None,
                     investorAt ''i3'' 0 ''active'' (Some 7)],
       sortBy := ''investmentAmount''\<rparr>)
   = [investorAt ''i3'' 0 ''active'' (Some 7),
      investorAt ''i1'' 0 ''active'' (Some 5),
      investorAt ''i2'' 0 ''active'' None]"
  using sortedInvestors_by_amount_descending [of "signedIn
      \<lparr>investors := [investorAt ''i1'' 0 ''active'' (Some 5),
                     investorAt ''i2'' 0 ''active'' None,
                     investorAt ''i3'' 0 ''active'' (Some 7)],
       sortBy := ''investmentAmount''\<rparr>" "\<lambda>a b. 0"]
  by (simp add: sortedInvestors_def array_sort_def compareInvestors_def filteredInvestors_def
      or_zero_def investorAt_simps signedIn_def initialState_def)

subsection \<open>The subscription handler\<close>

text \<open>
  C9. Every investor record the subscription handler puts into the local list has a
  number as its currentStep: the list has one record per document of the snapshot, in
  order; where the stored currentStep is of number type the record has that number, and
  where it is of any other type (or missing) the record has 0.
\<close>

theorem onSnapshot_currentStep_numeric:
  "length (investors (onSnapshot_handler querySnapshot s)) = length querySnapshot \<and>
   (\<forall>k < length querySnapshot.
      (typeof (currentStep (doc_data (querySnapshot ! k))) = ''number'' \<longrightarrow>
         JSNumber (currentStep (investors (onSnapshot_handler querySnapshot s) ! k))
           = currentStep (doc_data (querySnapshot ! k))) \<and>
      (typeof (currentStep (doc_data (querySnapshot ! k))) \<noteq> ''number'' \<longrightarrow>
         currentStep (investors (onSnapshot_handler querySnapshot s) ! k) = 0))"
  by (auto simp add: onSnapshot_handler_def investorOfDoc_def Let_def typeof_number_iff)

text \<open>
  An instance: a snapshot of three documents whose currentStep is the string "3", the
  number 4 and undefined gives records with the steps 0, 4 and 0.
\<close>

theorem onSnapshot_witness:
  "map currentStep
     (investors (onSnapshot_handler
        [docAt ''i1'' (JSString ''3''), docAt ''i2'' (JSNumber 4), docAt ''i3'' JSUndefined]
        signedIn)) = [0, 4, 0]"
  using onSnapshot_currentStep_numeric
    [of "[docAt ''i1'' (JSString ''3''), docAt ''i2'' (JSNumber 4), docAt ''i3'' JSUndefined]"
      signedIn]
  by (simp add: onSnapshot_handler_def investorOfDoc_def docAt_def)

subsection \<open>The status toggle\<close>

text \<open>
  C10. For every investor, the status toggle writes the status \<^verbatim>\<open>'paused'\<close> when the
  current status is \<^verbatim>\<open>'active'\<close> and \<^verbatim>\<open>'active'\<close> in every other case: with a user
  signed in, the click makes one update of the investor's document, of the status field,
  with that value (followed by the log entry when the update is rejected).
\<close>

theorem status_toggle_writes:
  "user s = Some u \<Longrightarrow>
   fst (status_onClick investor outcome s) =
     UpdateDoc (uid u) (investor_id investor)
       (StatusField (if status investor = ''active'' then ''paused'' else ''active''))
     # (case outcome of None \<Rightarrow> []
        | Some e \<Rightarrow> [ConsoleError ''Error updating investor status:'' e])"
  by (simp add: status_onClick_def handleUpdateInvestorStatus_def split: option.splits)

text \<open>An instance: a closed investor is set to active, an active one to paused.\<close>

theorem status_toggle_witness:
  "user signedIn = Some \<lparr>uid = ''u1'', user_email = None, displayName = None\<rparr> \<and>
   fst (status_onClick (investorAt ''i1'' 2 ''closed'' None) (None :: unit option) signedIn)
     = [UpdateDoc ''u1'' ''i1'' (StatusField ''active'')] \<and>
   fst (status_onClick (investorAt ''i2'' 2 ''active'' None) (None :: unit option) signedIn)
     = [UpdateDoc ''u1'' ''i2'' (StatusField ''paused'')]"
  using status_toggle_writes [of signedIn
      "\<lparr>uid = ''u1'', user_email = None, displayName = None\<rparr>"
      "investorAt ''i1'' 2 ''closed'' None" "None :: unit option"]
    status_toggle_writes [of signedIn
      "\<lparr>uid = ''u1'', user_email = None, displayName = None\<rparr>"
      "investorAt ''i2'' 2 ''active'' None" "None :: unit option"]
  by (simp add: signedIn_simps investorAt_simps)

subsection \<open>Stage transitions\<close>

text \<open>
  C2. For every investor record, the Previous button is disabled exactly when
  currentStep is 0 and the Next button exactly when it is 6. With a user signed in and
  currentStep an integer from 0 to 6, a click on Previous writes currentStep - 1 (once,
  to the investor's document) unless the button is disabled, and a click on Next writes
  currentStep + 1 unless it is disabled; a disabled button writes nothing. Every step a
  click writes from such a record is again an integer from 0 to 6.
\<close>

theorem stage_transition_by_one:
  "(previous_disabled investor \<longleftrightarrow> currentStep investor = 0) \<and>
   (next_disabled investor \<longleftrightarrow> currentStep investor = 6) \<and>
   (user s = Some u \<and> step_in_range (currentStep investor) \<longrightarrow>
      written_steps (fst (click (previous_disabled investor) (previous_onClick investor outcome) s))
        = (if currentStep investor = 0 then []
           else [(investor_id investor, currentStep investor - 1)]) \<and>
      written_steps (fst (click (next_disabled investor) (next_onClick investor outcome) s))
        = (if currentStep investor = 6 then []
           else [(investor_id investor, currentStep investor + 1)])) \<and>
   (step_in_range (currentStep investor) \<longrightarrow>
      (\<forall>w \<in> set (written_steps
            (fst (click (previous_disabled investor) (previous_onClick investor outcome) s)) @
          written_steps
            (fst (click (next_disabled investor) (next_onClick investor outcome) s))).
         step_in_range (snd w)))"
proof -
  have d1: "previous_disabled investor \<longleftrightarrow> currentStep investor = 0"
    by (simp add: previous_disabled_def)
  have d2: "next_disabled investor \<longleftrightarrow> currentStep investor = 6"
    by (simp add: next_disabled_def steps_last_index)
  have p: "written_steps (fst (click (previous_disabled investor) (previous_onClick investor outcome) s))
      = (if 0 < currentStep investor \<and> user s \<noteq> None
         then [(investor_id investor, currentStep investor - 1)] else [])"
    by (auto simp add: click_def previous_onClick_def previous_disabled_def
        written_steps_handleUpdateInvestorStep split: option.splits)
  have n: "written_steps (fst (click (next_disabled investor) (next_onClick investor outcome) s))
      = (if currentStep investor < 6 \<and> user s \<noteq> None
         then [(investor_id investor, currentStep investor + 1)] else [])"
    by (auto simp add: click_def next_onClick_def next_disabled_def steps_last_index
        written_steps_handleUpdateInvestorStep split: option.splits)
  have a: "user s = Some u \<and> step_in_range (currentStep investor) \<longrightarrow>
      written_steps (fst (click (previous_disabled investor) (previous_onClick investor outcome) s))
        = (if currentStep investor = 0 then []
           else [(investor_id investor, currentStep investor - 1)]) \<and>
      written_steps (fst (click (next_disabled investor) (next_onClick investor outcome) s))
        = (if currentStep investor = 6 then []
           else [(investor_id investor, currentStep investor + 1)])"
    unfolding p n by (auto simp add: step_in_range_def)
  have b: "step_in_range (currentStep investor) \<longrightarrow>
      (\<forall>w \<in> set (written_steps
            (fst (click (previous_disabled investor) (previous_onClick investor outcome) s)) @
          written_steps
            (fst (click (next_disabled investor) (next_onClick investor outcome) s))).
         step_in_range (snd w))"
    unfolding p n by (auto simp add: step_in_range_pred step_in_range_succ)
  from d1 d2 a b show ?thesis by blast
qed

text \<open>
  An instance: at step 5 Previous writes 4 and Next writes 6; at step 6 Next is
  disabled and writes nothing, at step 0 Previous is disabled and writes nothing.
\<close>

theorem stage_transition_witness:
  "user signedIn = Some \<lparr>uid = ''u1'', user_email = None, displayName = None\<rparr> \<and>
   step_in_range 5 \<and>
   written_steps (fst (click (previous_disabled (investorAt ''i1'' 5 ''active'' None))
       (previous_onClick (investorAt ''i1'' 5 ''active'' None) (None :: unit option)) signedIn))
     = [(''i1'', 4)] \<and>
   written_steps (fst (click (next_disabled (investorAt ''i1'' 5 ''active'' None))
       (next_onClick (investorAt ''i1'' 5 ''active'' None) (None :: unit option)) signedIn))
     = [(''i1'', 6)] \<and>
   step_in_range 4 \<and> step_in_range 6 \<and>
   next_disabled (investorAt ''i1'' 6 ''active'' None) \<and>
   written_steps (fst (click (next_disabled (investorAt ''i1'' 6 ''active'' None))
       (next_onClick (investorAt ''i1'' 6 ''active'' None) (None :: unit option)) signedIn))
     = [] \<and>
   previous_disabled (investorAt ''i1'' 0 ''active'' None) \<and>
   written_steps (fst (click (previous_disabled (investorAt ''i1'' 0 ''active'' None))
       (previous_onClick (investorAt ''i1'' 0 ''active'' None) (None :: unit option)) signedIn))
     = []"
  using stage_transition_by_one [of "investorAt ''i1'' 5 ''active'' None" signedIn
      "\<lparr>uid = ''u1'', user_email = None, displayName = None\<rparr>" "None :: unit option"]
    stage_transition_by_one [of "investorAt ''i1'' 6 ''active'' None" signedIn
      "\<lparr>uid = ''u1'', user_email = None, displayName = None\<rparr>" "None :: unit option"]
    stage_transition_by_one [of "investorAt ''i1'' 0 ''active'' None" signedIn
      "\<lparr>uid = ''u1'', user_email = None, displayName = None\<rparr>" "None :: unit option"]
  by (simp add: investorAt_simps signedIn_simps step_in_range_def previous_disabled_def
      next_disabled_def steps_last_index)

subsection \<open>Confetti on the final stage\<close>

text \<open>
  C6. For every stage update made with a user signed in: when the update of the step
  succeeds, the confetti is switched on and a timer is set if and only if the step just
  written is 6, the last index of the 7 stages; the timer is the only one set, runs after
  5000 ms and switches the confetti off. When the update is rejected, no timer is set and
  the confetti flag stays as it was.
\<close>

theorem confetti_iff_final_stage:
  "user s = Some u \<Longrightarrow>
   handleUpdateInvestorStep investorId newStep (None :: 'e option) s =
     (if newStep = 6
      then ([UpdateDoc (uid u) investorId (CurrentStepField newStep),
             SetTimeout (SetShowConfetti False) 5000],
            s\<lparr>showConfetti := True\<rparr>)
      else ([UpdateDoc (uid u) investorId (CurrentStepField newStep)], s)) \<and>
   showConfetti (run_callback (SetShowConfetti False) (s\<lparr>showConfetti := True\<rparr>)) = False \<and>
   fst (handleUpdateInvestorStep investorId newStep (Some e) s) =
     [UpdateDoc (uid u) investorId (CurrentStepField newStep),
      ConsoleError ''Error updating investor step:'' (e :: 'e)] \<and>
   showConfetti (snd (handleUpdateInvestorStep investorId newStep (Some e) s)) = showConfetti s \<and>
   length steps = 7"
  by (simp add: handleUpdateInvestorStep_def steps_last_index) (simp add: steps_def)

text \<open>
  An instance: writing step 6 switches the confetti on and sets the timer; writing step 5
  does neither.
\<close>

theorem confetti_witness:
  "user signedIn = Some \<lparr>uid = ''u1'', user_email = None, displayName = None\<rparr> \<and>
   handleUpdateInvestorStep ''i1'' 6 (None :: unit option) signedIn =
     ([UpdateDoc ''u1'' ''i1'' (CurrentStepField 6), SetTimeout (SetShowConfetti False) 5000],
      signedIn\<lparr>showConfetti := True\<rparr>) \<and>
   handleUpdateInvestorStep ''i1'' 5 (None :: unit option) signedIn =
     ([UpdateDoc ''u1'' ''i1'' (CurrentStepField 5)], signedIn)"
  using confetti_iff_final_stage [of signedIn
      "\<lparr>uid = ''u1'', user_email = None, displayName = None\<rparr>" "''i1''" 6 "()"]
    confetti_iff_final_stage [of signedIn
      "\<lparr>uid = ''u1'', user_email = None, displayName = None\<rparr>" "''i1''" 5 "()"]
  by (simp add: signedIn_simps)

subsection \<open>Confirming an edit\<close>

text \<open>
  C7. For every confirmed edit made with a user signed in: the calls contain exactly one
  write, it is the first call, and it updates the investor's document with the whole
  draft without its id (the draft is that data together with the id). When the write is
  rejected no analysis is called. When the write and the analyses succeed, the calls
  after the write are, in this order, the portfolio analysis, the likelihood prediction
  and the next-action suggestion, each on the saved draft (the last also on its
  currentStep), and the three derived fields hold what they returned.
\<close>

theorem handleEditInvestor_commit_then_refresh:
  "user s = Some u \<Longrightarrow>
   filter is_write (fst (handleEditInvestor updatedInvestor outcome portfolio likelihood actions s))
     = [UpdateDoc (uid u) (investor_id updatedInvestor)
          (WholeData (InvestorData.truncate updatedInvestor))] \<and>
   hd (fst (handleEditInvestor updatedInvestor outcome portfolio likelihood actions s))
     = UpdateDoc (uid u) (investor_id updatedInvestor)
          (WholeData (InvestorData.truncate updatedInvestor)) \<and>
   InvestorData.extend (InvestorData.truncate updatedInvestor)
       (Investor.fields (investor_id updatedInvestor)) = updatedInvestor \<and>
   filter is_analysis
       (fst (handleEditInvestor updatedInvestor (Some (e :: 'e)) portfolio likelihood actions s))
     = [] \<and>
   handleEditInvestor updatedInvestor (None :: 'e option) (Inr p) (Inr l) (Inr a) s =
     ([UpdateDoc (uid u) (investor_id updatedInvestor)
         (WholeData (InvestorData.truncate updatedInvestor)),
       AnalyzeInvestorPortfolio updatedInvestor,
       PredictInvestmentLikelihood updatedInvestor,
       SuggestNextActions updatedInvestor (currentStep updatedInvestor)],
      s\<lparr>investors :=
           map (\<lambda>investor. if investor_id investor = investor_id updatedInvestor
                            then updatedInvestor else investor) (investors s),
        editingInvestor := None, portfolioAnalysis := p, investmentLikelihood := Some l,
        suggestedActions := a\<rparr>)"
  by (simp add: handleEditInvestor_def Let_def truncate_extend split: option.splits sum.splits)

text \<open>An instance: an edit of investor i1 at step 2 whose four calls all succeed.\<close>

theorem handleEditInvestor_witness:
  "user signedIn = Some \<lparr>uid = ''u1'', user_email = None, displayName = None\<rparr> \<and>
   fst (handleEditInvestor (investorAt ''i1'' 2 ''active'' (Some 100)) (None :: unit option)
          (Inr [''fintech'']) (Inr 70) (Inr [''call'']) signedIn) =
     [UpdateDoc ''u1'' ''i1''
        (WholeData (InvestorData.truncate (investorAt ''i1'' 2 ''active'' (Some 100)))),
      AnalyzeInvestorPortfolio (investorAt ''i1'' 2 ''active'' (Some 100)),
      PredictInvestmentLikelihood (investorAt ''i1'' 2 ''active'' (Some 100)),
      SuggestNextActions (investorAt ''i1'' 2 ''active'' (Some 100)) 2] \<and>
   portfolioAnalysis (snd (handleEditInvestor (investorAt ''i1'' 2 ''active'' (Some 100))
          (None :: unit option) (Inr [''fintech'']) (Inr 70) (Inr [''call'']) signedIn))
     = [''fintech''] \<and>
   investmentLikelihood (snd (handleEditInvestor (investorAt ''i1'' 2 ''active'' (Some 100))
          (None :: unit option) (Inr [''fintech'']) (Inr 70) (Inr [''call'']) signedIn))
     = Some 70 \<and>
   suggestedActions (snd (handleEditInvestor (investorAt ''i1'' 2 ''active'' (Some 100))
          (None :: unit option) (Inr [''fintech'']) (Inr 70) (Inr [''call'']) signedIn))
     = [''call'']"
  using handleEditInvestor_commit_then_refresh [of signedIn
      "\<lparr>uid = ''u1'', user_email = None, displayName = None\<rparr>"
      "investorAt ''i1'' 2 ''active'' (Some 100)" "None :: unit option"
      "Inr [''fintech'']" "Inr 70" "Inr [''call'']" "()" "[''fintech'']" 70 "[''call'']"]
  by (simp add: signedIn_simps investorAt_simps)

subsection \<open>Submitting a comment\<close>

text \<open>
  C5. For every comment input that is empty or has only white space, submitting the
  form does not call \<^verbatim>\<open>handleAddComment\<close>, leaves the input as it is and makes no
  call on the store. For every input with a character that is not white space,
  \<^verbatim>\<open>handleAddComment\<close> is called with the investor's id and the trimmed text and
  the input is cleared; with a user signed in, the first call made is the update that
  adds a comment carrying the trimmed text to the investor's document, and the only
  other call is the log entry of a rejected update.
\<close>

theorem handleCommentSubmit_blank_or_trimmed:
  "((\<forall>ch \<in> set (newComment c). ws ch) \<longrightarrow>
      handleCommentSubmit ws handleAddComment_prop investor c = (None, c) \<and>
      submitComment ws investor dateNow isoNow outcome (s, c) = ([], s, c)) \<and>
   (\<not> (\<forall>ch \<in> set (newComment c). ws ch) \<longrightarrow>
      handleCommentSubmit ws handleAddComment_prop investor c =
        (Some (handleAddComment_prop (investor_id investor) (trim ws (newComment c))),
         c\<lparr>newComment := []\<rparr>) \<and>
      (user s = Some u \<longrightarrow>
         fst (submitComment ws investor dateNow isoNow outcome (s, c)) =
           UpdateDoc (uid u) (investor_id investor)
             (CommentsArrayUnion \<lparr>comment_id = dateNow,
                comment_text = trim ws (newComment c), comment_date = isoNow\<rparr>)
           # (case outcome of None \<Rightarrow> []
              | Some e \<Rightarrow> [ConsoleError ''Error adding comment:'' e])))"
  by (auto simp add: handleCommentSubmit_def submitComment_def handleAddComment_def Let_def
      trim_empty_iff split: option.splits)

text \<open>
  An instance, with the space as the only white space: two spaces are not submitted,
  and " hi " is submitted as "hi".
\<close>

theorem handleCommentSubmit_witness:
  "submitComment (\<lambda>ch. ch = CHR '' '') (investorAt ''i1'' 2 ''active'' None)
       ''1700000000000'' ''2023-11-14T22:13:20.000Z'' (None :: unit option)
       (signedIn, \<lparr>newComment = ''  '', editingCommentId = None, editingCommentText = []\<rparr>)
     = ([], signedIn,
        \<lparr>newComment = ''  '', editingCommentId = None, editingCommentText = []\<rparr>) \<and>
   fst (submitComment (\<lambda>ch. ch = CHR '' '') (investorAt ''i1'' 2 ''active'' None)
       ''1700000000000'' ''2023-11-14T22:13:20.000Z'' (None :: unit option)
       (signedIn, \<lparr>newComment = '' hi '', editingCommentId = None, editingCommentText = []\<rparr>))
     = [UpdateDoc ''u1'' ''i1''
          (CommentsArrayUnion \<lparr>comment_id = ''1700000000000'', comment_text = ''hi'',
             comment_date = ''2023-11-14T22:13:20.000Z''\<rparr>)]"
  using handleCommentSubmit_blank_or_trimmed [of
      "\<lparr>newComment = ''  '', editingCommentId = None, editingCommentText = []\<rparr>"
      "\<lambda>ch. ch = CHR '' ''" "\<lambda>i t. ()" "investorAt ''i1'' 2 ''active'' None"
      "''1700000000000''" "''2023-11-14T22:13:20.000Z''" "None :: unit option" signedIn
      "\<lparr>uid = ''u1'', user_email = None, displayName = None\<rparr>"]
    handleCommentSubmit_blank_or_trimmed [of
      "\<lparr>newComment = '' hi '', editingCommentId = None, editingCommentText = []\<rparr>"
      "\<lambda>ch. ch = CHR '' ''" "\<lambda>i t. ()" "investorAt ''i1'' 2 ''active'' None"
      "''1700000000000''" "''2023-11-14T22:13:20.000Z''" "None :: unit option" signedIn
      "\<lparr>uid = ''u1'', user_email = None, displayName = None\<rparr>"]
  by (simp add: signedIn_simps investorAt_simps trim_def)

subsection \<open>The error text of a failed write\<close>

text \<open>
  C1, as the code has it. With a user signed in, a write that is rejected with any
  cause leaves in the one error field of the page a text that is fixed for the
  operation: "Failed to", what the operation was, and ". Please try again.". The cause
  does not appear in it. For the two comment operations that read the document first, a
  rejected read leaves the same text as a rejected write; for an edit, a rejected
  analysis after the write leaves the text of the edit.
\<close>

theorem write_failure_message_per_operation:
  "user s = Some u \<Longrightarrow>
   error (snd (handleAddInvestor (Some (e :: 'e)) s))
     = Some (''Failed to '' @ ''add investor'' @ ''. Please try again.'') \<and>
   error (snd (handleUpdateInvestorStep investorId newStep (Some e) s))
     = Some (''Failed to '' @ ''update investor step'' @ ''. Please try again.'') \<and>
   error (snd (handleUpdateInvestorStatus investorId newStatus (Some e) s))
     = Some (''Failed to '' @ ''update investor status'' @ ''. Please try again.'') \<and>
   error (snd (handleDeleteInvestor investorId (Some e) s))
     = Some (''Failed to '' @ ''delete investor'' @ ''. Please try again.'') \<and>
   error (snd (handleEditInvestor updatedInvestor (Some e) portfolio likelihood actions s))
     = Some (''Failed to '' @ ''update investor'' @ ''. Please try again.'') \<and>
   error (snd (handleEditInvestor updatedInvestor None (Inl e) likelihood actions s))
     = Some (''Failed to '' @ ''update investor'' @ ''. Please try again.'') \<and>
   error (snd (handleAddComment investorId commentText dateNow isoNow (Some e) s))
     = Some (''Failed to '' @ ''add comment'' @ ''. Please try again.'') \<and>
   error (snd (handleUpdateComment investorId commentId newText (Inr v) (Some e) s))
     = Some (''Failed to '' @ ''update comment'' @ ''. Please try again.'') \<and>
   error (snd (handleUpdateComment investorId commentId newText (Inl e) outcome s))
     = Some (''Failed to '' @ ''update comment'' @ ''. Please try again.'') \<and>
   error (snd (handleDeleteComment investorId commentId (Inr v) (Some e) s))
     = Some (''Failed to '' @ ''delete comment'' @ ''. Please try again.'') \<and>
   error (snd (handleDeleteComment investorId commentId (Inl e) outcome s))
     = Some (''Failed to '' @ ''delete comment'' @ ''. Please try again.'')"
  by (simp add: handleAddInvestor_def handleUpdateInvestorStep_def
      handleUpdateInvestorStatus_def handleDeleteInvestor_def handleEditInvestor_def
      handleAddComment_def handleUpdateComment_def handleDeleteComment_def Let_def)

text \<open>An instance: the texts left by a failed add of an investor and of a comment.\<close>

theorem write_failure_message_witness:
  "user signedIn = Some \<lparr>uid = ''u1'', user_email = None, displayName = None\<rparr> \<and>
   error (snd (handleAddInvestor (Some ()) signedIn))
     = Some ''Failed to add investor. Please try again.'' \<and>
   error (snd (handleAddComment ''i1'' ''hi'' ''1700000000000'' ''2023-11-14T22:13:20.000Z''
                 (Some ()) signedIn))
     = Some ''Failed to add comment. Please try again.''"
  using write_failure_message_per_operation [of signedIn
      "\<lparr>uid = ''u1'', user_email = None, displayName = None\<rparr>" "()" "''i1''" 0 "''active''"
      "investorAt ''i1'' 0 ''active'' None" "Inr []" "Inr 0" "Inr []" "''hi''"
      "''1700000000000''" "''2023-11-14T22:13:20.000Z''" "''c1''" "''new''" None None]
  by (simp add: signedIn_simps)

text \<open>
  C1 as stated, that the error text is the same whichever operation failed, does not
  hold: a failed add of an investor and a failed add of a comment, on the same page
  and with the same cause, leave different texts.
\<close>

theorem write_failure_message_not_shared:
  "error (snd (handleAddInvestor (Some ()) signedIn)) \<noteq>
   error (snd (handleAddComment ''i1'' ''hi'' ''1700000000000'' ''2023-11-14T22:13:20.000Z''
                 (Some ()) signedIn))"
  by (simp add: handleAddInvestor_def handleAddComment_def signedIn_simps)

end
